theory Spec2Isabelle
  imports Complex_Main
begin

section \<open>The financial engine of streamlit\_app.py\<close>

text \<open>
  The engine is the class \<open>FinancialEngine\<close>: eight profile fields and three constants set
  by \<open>__init__\<close>, and four calculations that only read them. Python's floats are read as
  real numbers (rounding and overflow are outside this development); the ages, the number
  of dependents and the year counts are Python ints.
\<close>

subsection \<open>Data\<close>

record engine =
  age :: int
  income :: real
  dependents :: int
  debt :: real
  savings :: real
  retire_age :: int
  inflation_rate :: real
  investment_return :: real
  SAFE_WITHDRAWAL_RATE :: real
  INCOME_REPLACEMENT_RATIO :: real
  INSURANCE_DISCOUNT_RATE :: real

text \<open>
  The only exception the four calculations can raise on numbers: a float division by zero,
  or zero raised to a negative power.
\<close>

datatype error = ZeroDivisionError

subsection \<open>Construction\<close>

text \<open>
  \<open>__init__\<close> (lines 13 to 26) stores the arguments, the two rates divided by 100, and the
  three constants.
\<close>

definition FinancialEngine_init ::
  "int \<Rightarrow> real \<Rightarrow> int \<Rightarrow> real \<Rightarrow> real \<Rightarrow> int \<Rightarrow> real \<Rightarrow> real \<Rightarrow> engine" where
  "FinancialEngine_init age' income' dependents' debt' savings' retire_age'
       inflation_rate' investment_return' =
     \<lparr> age = age',
       income = income',
       dependents = dependents',
       debt = debt',
       savings = savings',
       retire_age = retire_age',
       inflation_rate = inflation_rate' / 100.0,
       investment_return = investment_return' / 100.0,
       SAFE_WITHDRAWAL_RATE = 0.04,
       INCOME_REPLACEMENT_RATIO = 0.75,
       INSURANCE_DISCOUNT_RATE = 0.03 \<rparr>"

text \<open>
  The constructor call \<open>FinancialEngine(...)\<close> as a result: \<open>__init__\<close> has no
  \<open>raise\<close>, no check of its arguments, and divides by the literal 100.0 only, so the
  call has no failing branch.
\<close>

definition FinancialEngine_new ::
  "int \<Rightarrow> real \<Rightarrow> int \<Rightarrow> real \<Rightarrow> real \<Rightarrow> int \<Rightarrow> real \<Rightarrow> real \<Rightarrow> error + engine" where
  "FinancialEngine_new age' income' dependents' debt' savings' retire_age'
       inflation_rate' investment_return' =
     Inr (FinancialEngine_init age' income' dependents' debt' savings' retire_age'
            inflation_rate' investment_return')"

subsection \<open>Insurance gap\<close>

text \<open>
  \<open>calc_insurance_gap\<close> (lines 28 to 38). The power \<open>(1 + r) ** (-years_support)\<close> raises
  \<open>ZeroDivisionError\<close> when \<open>1 + r\<close> is zero, and so does the division by \<open>r\<close> when
  \<open>r\<close> is zero. The annual support is \<open>income * 0.75\<close> with the literal, and the support
  horizon is the literal 20.
\<close>

definition calc_insurance_gap :: "engine \<Rightarrow> error + (real \<times> real)" where
  "calc_insurance_gap e =
     (let years_support = (if dependents e > 0 then 20 else 0 :: int) in
      if years_support = 0 then Inr (0, 0)
      else
        let annual_support = income e * 0.75 in
        if 1 + INSURANCE_DISCOUNT_RATE e = 0 then Inl ZeroDivisionError
        else if INSURANCE_DISCOUNT_RATE e = 0 then Inl ZeroDivisionError
        else
          let pv_factor = (1 - (1 + INSURANCE_DISCOUNT_RATE e) powi (- years_support))
                            / INSURANCE_DISCOUNT_RATE e;
              gross_need = annual_support * pv_factor;
              total_need = gross_need + debt e - savings e
          in Inr (max 0 total_need, max 0 gross_need))"

subsection \<open>Retirement target\<close>

text \<open>
  \<open>calc_retirement_target\<close> (lines 40 to 50). The exponent is a positive int on this
  path; the division by \<open>SAFE_WITHDRAWAL_RATE\<close> raises when that attribute is zero.
\<close>

definition calc_retirement_target :: "engine \<Rightarrow> error + (real \<times> int)" where
  "calc_retirement_target e =
     (let years_to_retire = retire_age e - age e in
      if years_to_retire \<le> 0 then Inr (0, 0)
      else
        let current_annual_need = income e * INCOME_REPLACEMENT_RATIO e;
            future_annual_need =
              current_annual_need * ((1 + inflation_rate e) powi years_to_retire)
        in if SAFE_WITHDRAWAL_RATE e = 0 then Inl ZeroDivisionError
           else
             let target_corpus = future_annual_need / SAFE_WITHDRAWAL_RATE e
             in Inr (target_corpus, years_to_retire))"

subsection \<open>Required monthly saving\<close>

text \<open>
  Modelled from the spec: \<open>numpy_financial.pmt\<close> is a library routine, not part of src/.
  The spec calls it the standard payment formula for end-of-period payments with present
  value \<open>pv\<close> and future value \<open>fv\<close>: the payment \<open>p\<close> that solves
  \<open>fv + pv * (1 + rate)^nper + p * ((1 + rate)^nper - 1) / rate = 0\<close>, and
  \<open>fv + pv + p * nper = 0\<close> when the rate is zero. The library computes
  \<open>temp = (1 + rate) ** nper\<close>, \<open>fact = nper\<close> for a zero rate and
  \<open>(temp - 1) / rate\<close> otherwise, and returns \<open>-(fv + pv * temp) / fact\<close>. It works on
  numpy floats, where a division by zero gives an infinity or a NaN and no exception:
  \<open>None\<close> stands for such a result that is not a number.
\<close>

definition pmt :: "real \<Rightarrow> int \<Rightarrow> real \<Rightarrow> real \<Rightarrow> real option" where
  "pmt rate nper pv fv =
     (if 1 + rate = 0 \<and> nper < 0 then None
      else
        let temp = (1 + rate) powi nper;
            fact = (if rate = 0 then of_int nper else (temp - 1) / rate)
        in if fact = 0 then None else Some (- (fv + pv * temp) / fact))"

text \<open>\<open>calc_monthly_savings_req\<close> (lines 52 to 67).\<close>

definition calc_monthly_savings_req :: "engine \<Rightarrow> real \<Rightarrow> int \<Rightarrow> real option" where
  "calc_monthly_savings_req e target_corpus years_to_retire =
     (if years_to_retire \<le> 0 then Some 0
      else
        let monthly_rate = investment_return e / 12;
            months = years_to_retire * 12
        in map_option (\<lambda>p. p * (- 1)) (pmt monthly_rate months (- savings e) target_corpus))"

subsection \<open>Risk profile\<close>

text \<open>
  \<open>get_risk_profile\<close> (lines 69 to 84). The two \<open>if\<close> chains that add to \<open>score\<close>
  are named, and so is the value of \<open>score\<close> before the last chain.
\<close>

definition horizon_points :: "int \<Rightarrow> int" where
  "horizon_points years = (if years > 20 then 3 else if years > 10 then 2 else 1)"

definition leverage_points :: "real \<Rightarrow> int" where
  "leverage_points debt_ratio =
     (if debt_ratio < 0.3 then 2 else if debt_ratio < 1.0 then 1 else - 1)"

definition risk_score :: "engine \<Rightarrow> int" where
  "risk_score e =
     (let years = retire_age e - age e;
          debt_ratio = debt e / (if income e > 0 then income e else 1);
          score = 0;
          score = score + horizon_points years;
          score = score + leverage_points debt_ratio
      in score)"

definition get_risk_profile :: "engine \<Rightarrow> string" where
  "get_risk_profile e =
     (let score = risk_score e in
      if score \<ge> 4 then ''High (Growth Focused)''
      else if score \<ge> 3 then ''Medium (Balanced)''
      else ''Low (Preservation Focused)'')"

subsection \<open>The risk score as the specification words it\<close>

text \<open>
  The specification's own wording of the score, for comparison with \<open>risk_score\<close> and
  \<open>get_risk_profile\<close>: the debt ratio with its fallback divisor, the horizon component
  with the band \<open>10 < years \<le> 20\<close>, the leverage component with the band
  \<open>0.3 \<le> ratio < 1.0\<close>, and the three label conditions written out one by one.
\<close>

definition spec_debt_ratio :: "engine \<Rightarrow> real" where
  "spec_debt_ratio e = (if income e > 0 then debt e / income e else debt e / 1)"

definition spec_risk_score :: "engine \<Rightarrow> int" where
  "spec_risk_score e =
     (let years = retire_age e - age e;
          debt_ratio = spec_debt_ratio e
      in (if years > 20 then 3 else if 10 < years \<and> years \<le> 20 then 2 else 1)
         + (if debt_ratio < 0.3 then 2
            else if 0.3 \<le> debt_ratio \<and> debt_ratio < 1.0 then 1
            else if debt_ratio \<ge> 1.0 then - 1
            else 0))"

definition spec_risk_label :: "int \<Rightarrow> string" where
  "spec_risk_label score =
     (if score \<ge> 4 then ''High (Growth Focused)''
      else if score = 3 then ''Medium (Balanced)''
      else if score \<le> 2 then ''Low (Preservation Focused)''
      else [])"

section \<open>Properties\<close>

subsection \<open>Auxiliary facts\<close>

text \<open>The fields of a freshly constructed engine.\<close>

lemma init_simps:
  "age (FinancialEngine_init a i d db s r infl roi) = a"
  "income (FinancialEngine_init a i d db s r infl roi) = i"
  "dependents (FinancialEngine_init a i d db s r infl roi) = d"
  "debt (FinancialEngine_init a i d db s r infl roi) = db"
  "savings (FinancialEngine_init a i d db s r infl roi) = s"
  "retire_age (FinancialEngine_init a i d db s r infl roi) = r"
  "inflation_rate (FinancialEngine_init a i d db s r infl roi) = infl / 100"
  "investment_return (FinancialEngine_init a i d db s r infl roi) = roi / 100"
  "SAFE_WITHDRAWAL_RATE (FinancialEngine_init a i d db s r infl roi) = 0.04"
  "INCOME_REPLACEMENT_RATIO (FinancialEngine_init a i d db s r infl roi) = 0.75"
  "INSURANCE_DISCOUNT_RATE (FinancialEngine_init a i d db s r infl roi) = 0.03"
  by (simp_all add: FinancialEngine_init_def)

text \<open>The annuity factor of the default discount rate over 20 years is positive.\<close>

lemma pv_factor_pos: "0 < (1 - (1 + 0.03) powi (- 20)) / (0.03::real)"
  by (simp add: power_int_minus field_simps)

lemma inflation_factor_nonneg:
  fixes x :: real
  assumes "- 1 \<le> x"
  shows "0 \<le> (1 + x) ^ n"
  using assms by (intro zero_le_power) simp

text \<open>The insurance gap of a freshly constructed engine never raises.\<close>

lemma calc_insurance_gap_init:
  "calc_insurance_gap (FinancialEngine_init a i d db s r infl roi) =
     (if 0 < d
      then Inr (max 0 ((i * 0.75) * ((1 - (1 + 0.03) powi (- 20)) / 0.03) + db - s),
                max 0 ((i * 0.75) * ((1 - (1 + 0.03) powi (- 20)) / 0.03)))
      else Inr (0, 0))"
  by (simp add: calc_insurance_gap_def init_simps Let_def)

text \<open>
  The payment formula in closed form, and the equation it solves. With a nonzero rate the
  only division is by \<open>(1 + rate)^nper - 1\<close>.
\<close>

lemma neg_divide_quotient:
  fixes a d r :: real
  shows "- a / (d / r) = - (r * a / d)"
  by (simp add: mult.commute)

lemma pmt_nonzero_rate:
  assumes "0 \<le> nper" and "rate \<noteq> 0"
  shows "pmt rate nper pv fv =
           (if (1 + rate) ^ nat nper = 1 then None
            else Some (- (rate * (fv + pv * (1 + rate) ^ nat nper) / ((1 + rate) ^ nat nper - 1))))"
proof -
  let ?t = "(1 + rate) ^ nat nper"
  have p: "(1 + rate) powi nper = ?t" using assms(1) by (simp add: power_int_def)
  have f: "(?t - 1) / rate = 0 \<longleftrightarrow> ?t = 1" using assms(2) by simp
  have q: "- (fv + pv * ?t) / ((?t - 1) / rate) = - (rate * (fv + pv * ?t) / (?t - 1))"
    by (rule neg_divide_quotient)
  have "pmt rate nper pv fv =
      (if (?t - 1) / rate = 0 then None else Some (- (fv + pv * ?t) / ((?t - 1) / rate)))"
    using assms by (simp only: pmt_def Let_def p) simp
  then show ?thesis unfolding f q .
qed

lemma pmt_zero_rate:
  assumes "0 < nper"
  shows "pmt 0 nper pv fv = Some (- (fv + pv) / of_int nper)"
  using assms by (simp add: pmt_def Let_def)

lemma pmt_solves_annuity:
  assumes "pmt rate nper pv fv = Some p" and "0 \<le> nper" and "rate \<noteq> 0"
  shows "fv + pv * (1 + rate) ^ nat nper + p * ((1 + rate) ^ nat nper - 1) / rate = 0"
proof -
  let ?t = "(1 + rate) ^ nat nper"
  from assms have t: "?t \<noteq> 1" and p: "p = - (rate * (fv + pv * ?t) / (?t - 1))"
    by (simp_all add: pmt_nonzero_rate split: if_splits)
  from t have "?t - 1 \<noteq> 0" by simp
  with \<open>rate \<noteq> 0\<close> show ?thesis unfolding p by (simp add: field_simps)
qed

text \<open>
  Over a whole number of years the month count is even, so the growth factor is 1 only
  for a monthly rate of 0 or of \<open>- 2\<close> (an annual return of minus 2400 percent).
\<close>

lemma even_power_eq_1:
  fixes x :: real
  assumes "0 < y"
  shows "(1 + x) ^ nat (y * 12) = 1 \<longleftrightarrow> x = 0 \<or> x = - 2"
proof -
  have n: "nat (y * 12) = 2 * nat (y * 6)" using assms by (simp add: nat_mult_distrib)
  have k: "0 < nat (y * 6)" using assms by simp
  have "(1 + x) ^ nat (y * 12) = ((1 + x)\<^sup>2) ^ nat (y * 6)"
    unfolding n by (rule power_mult)
  moreover have "((1 + x)\<^sup>2) ^ nat (y * 6) = 1 \<longleftrightarrow> (1 + x)\<^sup>2 = 1"
    using power_eq_iff_eq_base [OF k, of "(1 + x)\<^sup>2" 1] by simp
  moreover have "(1 + x)\<^sup>2 = 1 \<longleftrightarrow> x = 0 \<or> x = - 2"
    unfolding power2_eq_1_iff by auto
  ultimately show ?thesis by simp
qed

text \<open>The components of the risk score.\<close>

lemma horizon_points_cases: "horizon_points y = 1 \<or> horizon_points y = 2 \<or> horizon_points y = 3"
  by (simp add: horizon_points_def)

lemma leverage_points_cases:
  "leverage_points x = - 1 \<or> leverage_points x = 1 \<or> leverage_points x = 2"
  by (simp add: leverage_points_def)

lemma risk_score_split:
  "risk_score e = horizon_points (retire_age e - age e)
     + leverage_points (debt e / (if income e > 0 then income e else 1))"
  by (simp add: risk_score_def Let_def)

lemma risk_score_bounds: "0 \<le> risk_score e \<and> risk_score e \<le> 5"
  using horizon_points_cases [of "retire_age e - age e"]
    leverage_points_cases [of "debt e / (if income e > 0 then income e else 1)"]
  unfolding risk_score_split by linarith

lemma horizon_points_spec:
  "horizon_points years = (if years > 20 then 3 else if 10 < years \<and> years \<le> 20 then 2 else 1)"
  by (simp add: horizon_points_def)

lemma leverage_points_spec:
  "leverage_points x =
     (if x < 0.3 then 2 else if 0.3 \<le> x \<and> x < 1.0 then 1 else if x \<ge> 1.0 then - 1 else 0)"
proof (cases "x < 0.3")
  case True
  then show ?thesis by (simp add: leverage_points_def)
next
  case False
  then have "0.3 \<le> x" by simp
  then show ?thesis using False by (cases "x < 1.0") (simp_all add: leverage_points_def)
qed

subsection \<open>Retirement target\<close>

text \<open>
  C1, as the specification states it, fails in its last part: the outputs are not
  non-negative for every profile. With an inflation input of minus 300 percent and three
  years to retirement the growth factor is \<open>(1 - 3)^3 = - 8\<close>, and the target corpus
  of the scenario's income is \<open>63750 * (- 8) / 0.04\<close>, a negative number.
\<close>

theorem retirement_target_counterexample:
  "calc_retirement_target (FinancialEngine_init 35 85000 2 25000 40000 38 (- 300) 7)
     = Inr (- 12750000, 3) \<and>
   (- 12750000 :: real) < 0"
  by (simp add: calc_retirement_target_def init_simps)

text \<open>
  C1, amended. For an engine as the constructor builds it, \<open>calc_retirement_target\<close>
  returns \<open>(0, 0)\<close> when \<open>retire_age - age \<le> 0\<close>, and otherwise the pair of
  \<open>(income * 0.75) * (1 + inflation_rate)^years / 0.04\<close> and
  \<open>years = retire_age - age\<close>. Both outputs are non-negative whenever the income is
  non-negative and the inflation rate is at least \<open>- 1\<close> (minus 100 percent).
\<close>

theorem retirement_target_formula:
  assumes "e = FinancialEngine_init a i d db s r infl roi"
  shows "calc_retirement_target e =
           (if retire_age e - age e \<le> 0 then Inr (0, 0)
            else Inr ((income e * 0.75) * (1 + inflation_rate e) ^ nat (retire_age e - age e) / 0.04,
                      retire_age e - age e)) \<and>
         (0 \<le> income e \<and> - 1 \<le> inflation_rate e \<longrightarrow>
            (\<exists>target_corpus years_to_retire.
               calc_retirement_target e = Inr (target_corpus, years_to_retire) \<and>
               0 \<le> target_corpus \<and> 0 \<le> years_to_retire))"
proof -
  let ?y = "retire_age e - age e"
  let ?t = "(income e * 0.75) * (1 + inflation_rate e) ^ nat ?y / 0.04"
  have eq: "calc_retirement_target e = (if ?y \<le> 0 then Inr (0, 0) else Inr (?t, ?y))"
    unfolding assms
    by (simp add: calc_retirement_target_def init_simps Let_def power_int_def)
  have nonneg: "\<exists>t y. calc_retirement_target e = Inr (t, y) \<and> 0 \<le> t \<and> 0 \<le> y"
    if "0 \<le> income e" and "- 1 \<le> inflation_rate e"
  proof (cases "?y \<le> 0")
    case True
    with eq have "calc_retirement_target e = Inr (0, 0)" by simp
    then show ?thesis by simp
  next
    case False
    have "0 \<le> (income e * 0.75) * (1 + inflation_rate e) ^ nat ?y"
      using that inflation_factor_nonneg [of "inflation_rate e" "nat ?y"]
      by (intro mult_nonneg_nonneg) simp_all
    then have "0 \<le> ?t" by (rule divide_nonneg_pos) simp
    moreover from False eq have "calc_retirement_target e = Inr (?t, ?y)" by simp
    ultimately show ?thesis using False by (intro exI [of _ ?t] exI [of _ ?y]) simp
  qed
  from eq nonneg show ?thesis by blast
qed

theorem retirement_target_formula_witness:
  "calc_retirement_target (FinancialEngine_init 35 85000 2 25000 40000 65 2.5 7) =
     Inr ((85000 * 0.75) * (1 + 2.5 / 100) ^ 30 / 0.04, 30) \<and>
   calc_retirement_target (FinancialEngine_init 65 85000 2 25000 40000 65 2.5 7) = Inr (0, 0) \<and>
   (0::real) \<le> 85000 \<and> (- 1::real) \<le> 2.5 / 100 \<and>
   (\<exists>target_corpus years_to_retire.
      calc_retirement_target (FinancialEngine_init 35 85000 2 25000 40000 65 2.5 7)
        = Inr (target_corpus, years_to_retire) \<and>
      0 \<le> target_corpus \<and> 0 \<le> years_to_retire)"
  using retirement_target_formula [OF refl, of 35 85000 2 25000 40000 65 "2.5" 7]
    retirement_target_formula [OF refl, of 65 85000 2 25000 40000 65 "2.5" 7]
  by (simp add: init_simps)

subsection \<open>Insurance gap\<close>

text \<open>
  C2. For an engine as the constructor builds it, with \<open>dependents > 0\<close> and the
  non-negative income of the data model, \<open>calc_insurance_gap\<close> returns
  \<open>(net_need, gross_need)\<close> with
  \<open>gross_need = (income * 0.75) * (1 - (1 + 0.03)^(-20)) / 0.03\<close> and
  \<open>net_need = max 0 (gross_need + debt - savings)\<close>, both non-negative.
\<close>

theorem insurance_gap_formula:
  assumes "e = FinancialEngine_init a i d db s r infl roi"
    and "0 < dependents e" and "0 \<le> income e"
  shows "calc_insurance_gap e =
           Inr (max 0 ((income e * 0.75) * ((1 - (1 + 0.03) powi (- 20)) / 0.03)
                         + debt e - savings e),
                (income e * 0.75) * ((1 - (1 + 0.03) powi (- 20)) / 0.03)) \<and>
         0 \<le> max 0 ((income e * 0.75) * ((1 - (1 + 0.03) powi (- 20)) / 0.03)
                        + debt e - savings e) \<and>
         0 \<le> (income e * 0.75) * ((1 - (1 + 0.03) powi (- 20)) / 0.03)"
proof -
  let ?g = "(income e * 0.75) * ((1 - (1 + 0.03) powi (- 20)) / 0.03)"
  have g: "0 \<le> ?g"
    using assms(3) pv_factor_pos by (intro mult_nonneg_nonneg) simp_all
  have "calc_insurance_gap e = Inr (max 0 (?g + debt e - savings e), max 0 ?g)"
    using assms(2) unfolding assms(1)
    by (simp add: calc_insurance_gap_def init_simps Let_def)
  moreover from g have "max 0 ?g = ?g" by (rule max_absorb2)
  ultimately have "calc_insurance_gap e = Inr (max 0 (?g + debt e - savings e), ?g)"
    by (simp only:)
  with g show ?thesis by (intro conjI) (assumption, rule max.cobounded1, assumption)
qed

theorem insurance_gap_formula_witness:
  "(0::int) < 2 \<and> (0::real) \<le> 85000 \<and>
   calc_insurance_gap (FinancialEngine_init 35 85000 2 25000 40000 65 2.5 7) =
     Inr (max 0 ((85000 * 0.75) * ((1 - (1 + 0.03) powi (- 20)) / 0.03) + 25000 - 40000),
          (85000 * 0.75) * ((1 - (1 + 0.03) powi (- 20)) / 0.03))"
  using insurance_gap_formula [OF refl, of 35 85000 2 25000 40000 65 "2.5" 7]
  by (simp add: init_simps)

text \<open>
  C5. With \<open>dependents = 0\<close> the insurance gap is \<open>(0, 0)\<close>, whatever the other fields
  and constants are; and two engines that differ only in a positive number of dependents
  have the same insurance gap.
\<close>

theorem insurance_gap_cliff_edge:
  "calc_insurance_gap (e\<lparr>dependents := 0\<rparr>) = Inr (0, 0) \<and>
   (0 < d1 \<and> 0 < d2 \<longrightarrow>
      calc_insurance_gap (e\<lparr>dependents := d1\<rparr>) = calc_insurance_gap (e\<lparr>dependents := d2\<rparr>))"
  by (simp add: calc_insurance_gap_def)

theorem insurance_gap_cliff_edge_witness:
  "calc_insurance_gap
     ((FinancialEngine_init 35 85000 2 25000 40000 65 2.5 7)\<lparr>dependents := 0\<rparr>) = Inr (0, 0) \<and>
   (0::int) < 1 \<and> (0::int) < 5 \<and>
   calc_insurance_gap
     ((FinancialEngine_init 35 85000 2 25000 40000 65 2.5 7)\<lparr>dependents := 1\<rparr>) =
   calc_insurance_gap
     ((FinancialEngine_init 35 85000 2 25000 40000 65 2.5 7)\<lparr>dependents := 5\<rparr>)"
  using insurance_gap_cliff_edge
    [of "FinancialEngine_init 35 85000 2 25000 40000 65 2.5 7" 1 5]
  by simp

text \<open>
  C7. Between two constructed engines that differ only in debt, the one with more debt has
  the larger or equal net need; between two that differ only in savings, the one with
  more savings has the smaller or equal net need; the net need is never below 0, and the
  call returns in every case.
\<close>

theorem net_need_monotone:
  "(debt_lo \<le> debt_hi \<longrightarrow>
      (\<exists>n1 n2 g.
         calc_insurance_gap (FinancialEngine_init a i dep debt_lo s r infl roi) = Inr (n1, g) \<and>
         calc_insurance_gap (FinancialEngine_init a i dep debt_hi s r infl roi) = Inr (n2, g) \<and>
         0 \<le> n1 \<and> n1 \<le> n2)) \<and>
   (sav_lo \<le> sav_hi \<longrightarrow>
      (\<exists>n1 n2 g.
         calc_insurance_gap (FinancialEngine_init a i dep db sav_lo r infl roi) = Inr (n1, g) \<and>
         calc_insurance_gap (FinancialEngine_init a i dep db sav_hi r infl roi) = Inr (n2, g) \<and>
         0 \<le> n2 \<and> n2 \<le> n1))"
proof (cases "0 < dep")
  case True
  let ?g = "(i * 0.75) * ((1 - (1 + 0.03) powi (- 20)) / 0.03)"
  have debt: "\<exists>n1 n2 g.
         calc_insurance_gap (FinancialEngine_init a i dep debt_lo s r infl roi) = Inr (n1, g) \<and>
         calc_insurance_gap (FinancialEngine_init a i dep debt_hi s r infl roi) = Inr (n2, g) \<and>
         0 \<le> n1 \<and> n1 \<le> n2" if "debt_lo \<le> debt_hi"
  proof (intro exI conjI)
    show "calc_insurance_gap (FinancialEngine_init a i dep debt_lo s r infl roi)
        = Inr (max 0 (?g + debt_lo - s), max 0 ?g)"
      using True by (simp only: calc_insurance_gap_init if_True)
    show "calc_insurance_gap (FinancialEngine_init a i dep debt_hi s r infl roi)
        = Inr (max 0 (?g + debt_hi - s), max 0 ?g)"
      using True by (simp only: calc_insurance_gap_init if_True)
    show "0 \<le> max 0 (?g + debt_lo - s)" by (rule max.cobounded1)
    show "max 0 (?g + debt_lo - s) \<le> max 0 (?g + debt_hi - s)"
      using that by (intro max.mono) simp_all
  qed
  have sav: "\<exists>n1 n2 g.
         calc_insurance_gap (FinancialEngine_init a i dep db sav_lo r infl roi) = Inr (n1, g) \<and>
         calc_insurance_gap (FinancialEngine_init a i dep db sav_hi r infl roi) = Inr (n2, g) \<and>
         0 \<le> n2 \<and> n2 \<le> n1" if "sav_lo \<le> sav_hi"
  proof (intro exI conjI)
    show "calc_insurance_gap (FinancialEngine_init a i dep db sav_lo r infl roi)
        = Inr (max 0 (?g + db - sav_lo), max 0 ?g)"
      using True by (simp only: calc_insurance_gap_init if_True)
    show "calc_insurance_gap (FinancialEngine_init a i dep db sav_hi r infl roi)
        = Inr (max 0 (?g + db - sav_hi), max 0 ?g)"
      using True by (simp only: calc_insurance_gap_init if_True)
    show "0 \<le> max 0 (?g + db - sav_hi)" by (rule max.cobounded1)
    show "max 0 (?g + db - sav_hi) \<le> max 0 (?g + db - sav_lo)"
      using that by (intro max.mono) simp_all
  qed
  from debt sav show ?thesis by blast
next
  case False
  then have "calc_insurance_gap (FinancialEngine_init a i dep x y r infl roi) = Inr (0, 0)"
    for x y
    by (simp only: calc_insurance_gap_init if_False)
  then show ?thesis by simp
qed

theorem net_need_monotone_witness:
  "(25000::real) \<le> 30000 \<and>
   (\<exists>n1 n2 g.
      calc_insurance_gap (FinancialEngine_init 35 85000 2 25000 40000 65 2.5 7) = Inr (n1, g) \<and>
      calc_insurance_gap (FinancialEngine_init 35 85000 2 30000 40000 65 2.5 7) = Inr (n2, g) \<and>
      0 \<le> n1 \<and> n1 \<le> n2) \<and>
   (40000::real) \<le> 50000 \<and>
   (\<exists>n1 n2 g.
      calc_insurance_gap (FinancialEngine_init 35 85000 2 25000 40000 65 2.5 7) = Inr (n1, g) \<and>
      calc_insurance_gap (FinancialEngine_init 35 85000 2 25000 50000 65 2.5 7) = Inr (n2, g) \<and>
      0 \<le> n2 \<and> n2 \<le> n1)"
proof -
  have d: "(25000::real) \<le> 30000" and s: "(40000::real) \<le> 50000" by simp_all
  from net_need_monotone [where debt_lo = 25000 and debt_hi = 30000 and a = 35 and i = 85000
      and dep = 2 and s = 40000 and r = 65 and infl = "2.5" and roi = 7 and sav_lo = 40000
      and sav_hi = 50000 and db = 25000]
  show ?thesis using d s by blast
qed

subsection \<open>Required monthly saving\<close>

text \<open>
  C3. With \<open>years_to_retire > 0\<close> and a nonzero \<open>monthly_rate = investment_return / 12\<close>,
  \<open>calc_monthly_savings_req\<close> returns
  \<open>monthly_rate * (target_corpus - savings * (1 + monthly_rate)^months) /
  ((1 + monthly_rate)^months - 1)\<close> with \<open>months = years_to_retire * 12\<close>, which is the
  payment for \<open>pv = - savings\<close> and \<open>fv = target_corpus\<close> with its sign flipped. Where
  the denominator of the formula is zero the result is not a number.
\<close>

theorem monthly_savings_formula:
  assumes "0 < years_to_retire" and "investment_return e / 12 \<noteq> 0"
  shows "calc_monthly_savings_req e target_corpus years_to_retire =
           (if (1 + investment_return e / 12) ^ nat (years_to_retire * 12) = 1 then None
            else Some (investment_return e / 12
                         * (target_corpus
                              - savings e * (1 + investment_return e / 12) ^ nat (years_to_retire * 12))
                         / ((1 + investment_return e / 12) ^ nat (years_to_retire * 12) - 1))) \<and>
         calc_monthly_savings_req e target_corpus years_to_retire =
           map_option uminus
             (pmt (investment_return e / 12) (years_to_retire * 12) (- savings e) target_corpus)"
proof -
  have m: "0 \<le> years_to_retire * 12" using assms(1) by simp
  have c: "calc_monthly_savings_req e target_corpus years_to_retire =
      map_option uminus
        (pmt (investment_return e / 12) (years_to_retire * 12) (- savings e) target_corpus)"
    using assms(1) by (simp add: calc_monthly_savings_req_def Let_def option.map_comp comp_def cong: option.map_cong)
  show ?thesis
    unfolding c pmt_nonzero_rate [OF m assms(2)] by simp
qed

theorem monthly_savings_formula_witness:
  "(0::int) < 1 \<and> (7 / 100 / 12 :: real) \<noteq> 0 \<and>
   calc_monthly_savings_req (FinancialEngine_init 35 85000 2 25000 40000 65 2.5 7) 100000 1 =
     Some (7 / 100 / 12 * (100000 - 40000 * (1 + 7 / 100 / 12) ^ 12)
             / ((1 + 7 / 100 / 12) ^ 12 - 1))"
proof -
  have ne: "(1 + 7 / 100 / 12) ^ 12 \<noteq> (1::real)"
    by (simp add: power_divide)
  from monthly_savings_formula
    [of 1 "FinancialEngine_init 35 85000 2 25000 40000 65 2.5 7" 100000]
  have "calc_monthly_savings_req (FinancialEngine_init 35 85000 2 25000 40000 65 2.5 7) 100000 1 =
     (if (1 + 7 / 100 / 12) ^ 12 = (1::real) then None
      else Some (7 / 100 / 12 * (100000 - 40000 * (1 + 7 / 100 / 12) ^ 12)
             / ((1 + 7 / 100 / 12) ^ 12 - 1)))"
    by (simp add: init_simps)
  with ne show ?thesis by simp
qed

text \<open>
  C6. With \<open>investment_return = 0\<close> and \<open>years_to_retire > 0\<close>,
  \<open>calc_monthly_savings_req\<close> returns \<open>(target_corpus - savings) / (years_to_retire * 12)\<close>,
  a number: the only divisor is the month count, which is not zero.
\<close>

theorem monthly_savings_zero_return:
  assumes "investment_return e = 0" and "0 < years_to_retire"
  shows "calc_monthly_savings_req e target_corpus years_to_retire =
           Some ((target_corpus - savings e) / of_int (years_to_retire * 12)) \<and>
         (of_int (years_to_retire * 12) :: real) \<noteq> 0"
proof -
  have m: "0 < years_to_retire * 12" using assms(2) by simp
  have "calc_monthly_savings_req e target_corpus years_to_retire =
      map_option (\<lambda>p. p * (- 1)) (pmt 0 (years_to_retire * 12) (- savings e) target_corpus)"
    using assms by (simp add: calc_monthly_savings_req_def Let_def)
  also have "\<dots> = Some ((target_corpus - savings e) / of_int (years_to_retire * 12))"
    unfolding pmt_zero_rate [OF m] by (simp add: minus_divide_left)
  finally show ?thesis using m by simp
qed

theorem monthly_savings_zero_return_witness:
  "investment_return (FinancialEngine_init 35 85000 2 25000 40000 65 2.5 0) = 0 \<and>
   (0::int) < 30 \<and>
   calc_monthly_savings_req (FinancialEngine_init 35 85000 2 25000 40000 65 2.5 0) 400000 30
     = Some 1000"
  using monthly_savings_zero_return
    [of "FinancialEngine_init 35 85000 2 25000 40000 65 2.5 0" 30 400000]
  by (simp add: init_simps)

subsection \<open>Risk profile\<close>

text \<open>
  C4. The score of \<open>get_risk_profile\<close> is the score as the specification words it, the
  label is the specification's label of that score, and the label is High exactly for a
  score of at least 4, Medium exactly for a score of 3, Low exactly for a score of at
  most 2.
\<close>

theorem risk_profile_refines_spec:
  "risk_score e = spec_risk_score e \<and>
   get_risk_profile e = spec_risk_label (spec_risk_score e) \<and>
   (get_risk_profile e = ''High (Growth Focused)'' \<longleftrightarrow> 4 \<le> risk_score e) \<and>
   (get_risk_profile e = ''Medium (Balanced)'' \<longleftrightarrow> risk_score e = 3) \<and>
   (get_risk_profile e = ''Low (Preservation Focused)'' \<longleftrightarrow> risk_score e \<le> 2)"
proof -
  have r: "debt e / (if income e > 0 then income e else 1) = spec_debt_ratio e"
    by (simp add: spec_debt_ratio_def)
  have s: "risk_score e = spec_risk_score e"
    unfolding risk_score_split r spec_risk_score_def Let_def
    by (simp only: horizon_points_spec leverage_points_spec add_0_left)
  have l: "get_risk_profile e = spec_risk_label (risk_score e)"
    by (simp add: get_risk_profile_def spec_risk_label_def Let_def)
  have "(get_risk_profile e = ''High (Growth Focused)'' \<longleftrightarrow> 4 \<le> risk_score e)"
    "(get_risk_profile e = ''Medium (Balanced)'' \<longleftrightarrow> risk_score e = 3)"
    "(get_risk_profile e = ''Low (Preservation Focused)'' \<longleftrightarrow> risk_score e \<le> 2)"
    by (auto simp add: get_risk_profile_def Let_def)
  with s l show ?thesis by simp
qed

theorem risk_profile_refines_spec_witness:
  "risk_score (FinancialEngine_init 35 85000 2 25000 40000 65 2.5 7) = 5 \<and>
   get_risk_profile (FinancialEngine_init 35 85000 2 25000 40000 65 2.5 7)
     = ''High (Growth Focused)'' \<and>
   risk_score (FinancialEngine_init 55 85000 2 42500 40000 65 2.5 7) = 2 \<and>
   get_risk_profile (FinancialEngine_init 55 85000 2 42500 40000 65 2.5 7)
     = ''Low (Preservation Focused)'' \<and>
   risk_score (FinancialEngine_init 54 85000 2 42500 40000 65 2.5 7) = 3 \<and>
   get_risk_profile (FinancialEngine_init 54 85000 2 42500 40000 65 2.5 7)
     = ''Medium (Balanced)''"
  using risk_profile_refines_spec [of "FinancialEngine_init 35 85000 2 25000 40000 65 2.5 7"]
    risk_profile_refines_spec [of "FinancialEngine_init 55 85000 2 42500 40000 65 2.5 7"]
    risk_profile_refines_spec [of "FinancialEngine_init 54 85000 2 42500 40000 65 2.5 7"]
  by (simp add: spec_risk_score_def spec_risk_label_def spec_debt_ratio_def init_simps)

text \<open>
  C10. For every engine the horizon component is 1, 2 or 3, the leverage component is
  \<open>- 1\<close>, 1 or 2, the score is their sum and lies between 0 and 5, the label is one of
  the three, and it is Medium exactly when the score is 3. No assumption on the signs of
  debt and income is needed.
\<close>

theorem risk_score_range:
  "(horizon_points (retire_age e - age e) = 1 \<or> horizon_points (retire_age e - age e) = 2
      \<or> horizon_points (retire_age e - age e) = 3) \<and>
   (leverage_points (debt e / (if income e > 0 then income e else 1)) = - 1
      \<or> leverage_points (debt e / (if income e > 0 then income e else 1)) = 1
      \<or> leverage_points (debt e / (if income e > 0 then income e else 1)) = 2) \<and>
   risk_score e = horizon_points (retire_age e - age e)
      + leverage_points (debt e / (if income e > 0 then income e else 1)) \<and>
   0 \<le> risk_score e \<and> risk_score e \<le> 5 \<and>
   (get_risk_profile e = ''High (Growth Focused)'' \<or> get_risk_profile e = ''Medium (Balanced)''
      \<or> get_risk_profile e = ''Low (Preservation Focused)'') \<and>
   (get_risk_profile e = ''Medium (Balanced)'' \<longleftrightarrow> risk_score e = 3)"
proof -
  have lab: "get_risk_profile e = ''High (Growth Focused)'' \<or> get_risk_profile e = ''Medium (Balanced)''
      \<or> get_risk_profile e = ''Low (Preservation Focused)''"
    by (simp add: get_risk_profile_def Let_def)
  have med: "get_risk_profile e = ''Medium (Balanced)'' \<longleftrightarrow> risk_score e = 3"
    by (auto simp add: get_risk_profile_def Let_def)
  show ?thesis
    using horizon_points_cases leverage_points_cases risk_score_split risk_score_bounds lab med
    by blast
qed

subsection \<open>Construction and constants\<close>

text \<open>
  C8, as the specification states it, fails: constructing an engine with
  \<open>age \<ge> retire_age\<close>, negative income, savings and debt, and nine dependents returns
  an engine, not an error.
\<close>

theorem construction_counterexample:
  "FinancialEngine_new 70 (- 85000) 9 (- 25000) (- 40000) 65 2.5 7 =
     Inr \<lparr> age = 70, income = - 85000, dependents = 9, debt = - 25000, savings = - 40000,
           retire_age = 65, inflation_rate = 2.5 / 100, investment_return = 7 / 100,
           SAFE_WITHDRAWAL_RATE = 0.04, INCOME_REPLACEMENT_RATIO = 0.75,
           INSURANCE_DISCOUNT_RATE = 0.03 \<rparr>"
  by (simp add: FinancialEngine_new_def FinancialEngine_init_def)

text \<open>
  C8, amended. Construction never fails and checks nothing: for all arguments it returns
  an engine holding them as given, with the two rates divided by 100. The calculations
  keep their own guards: \<open>retire_age \<le> age\<close> gives a retirement target of
  \<open>(0, 0)\<close>, and \<open>dependents \<le> 0\<close> an insurance gap of \<open>(0, 0)\<close>.
\<close>

theorem construction_never_validates:
  "\<exists>e. FinancialEngine_new a i d db s r infl roi = Inr e \<and>
        age e = a \<and> income e = i \<and> dependents e = d \<and> debt e = db \<and> savings e = s \<and>
        retire_age e = r \<and> inflation_rate e = infl / 100 \<and> investment_return e = roi / 100 \<and>
        (r \<le> a \<longrightarrow> calc_retirement_target e = Inr (0, 0)) \<and>
        (d \<le> 0 \<longrightarrow> calc_insurance_gap e = Inr (0, 0))"
proof (intro exI conjI)
  show "FinancialEngine_new a i d db s r infl roi
      = Inr (FinancialEngine_init a i d db s r infl roi)"
    by (simp add: FinancialEngine_new_def)
qed (simp_all add: init_simps calc_retirement_target_def calc_insurance_gap_def)

theorem construction_never_validates_witness:
  "\<exists>e. FinancialEngine_new 70 (- 85000) 9 (- 25000) (- 40000) 65 2.5 7 = Inr e \<and>
        age e = 70 \<and> income e = - 85000 \<and> dependents e = 9 \<and> retire_age e = 65 \<and>
        (65::int) \<le> 70 \<and> calc_retirement_target e = Inr (0, 0)"
  using construction_never_validates [of 70 "- 85000" 9 "- 25000" "- 40000" 65 "2.5" 7]
  by auto

text \<open>
  C9, as the specification states it, fails: with \<open>INSURANCE_DISCOUNT_RATE\<close> set to 0
  on the engine of the specification's scenario, \<open>calc_insurance_gap\<close> raises the
  division by zero.
\<close>

theorem zero_discount_rate_counterexample:
  "calc_insurance_gap
     ((FinancialEngine_init 35 85000 2 25000 40000 65 2.5 7)\<lparr>INSURANCE_DISCOUNT_RATE := 0\<rparr>)
   = Inl ZeroDivisionError"
  by (simp add: calc_insurance_gap_def init_simps)

text \<open>
  C9, amended. With \<open>INSURANCE_DISCOUNT_RATE\<close> set to 0, \<open>calc_insurance_gap\<close> raises
  \<open>ZeroDivisionError\<close> when \<open>dependents > 0\<close> and returns \<open>(0, 0)\<close> otherwise;
  the other three calculations do not read the constant.
\<close>

theorem zero_discount_rate_behaviour:
  "calc_insurance_gap (e\<lparr>INSURANCE_DISCOUNT_RATE := 0\<rparr>) =
     (if 0 < dependents e then Inl ZeroDivisionError else Inr (0, 0)) \<and>
   calc_retirement_target (e\<lparr>INSURANCE_DISCOUNT_RATE := 0\<rparr>) = calc_retirement_target e \<and>
   calc_monthly_savings_req (e\<lparr>INSURANCE_DISCOUNT_RATE := 0\<rparr>) t y
     = calc_monthly_savings_req e t y \<and>
   get_risk_profile (e\<lparr>INSURANCE_DISCOUNT_RATE := 0\<rparr>) = get_risk_profile e"
  by (simp add: calc_insurance_gap_def calc_retirement_target_def calc_monthly_savings_req_def
      get_risk_profile_def risk_score_def Let_def)

end
